theory Spec2Isabelle
  imports
    Complex_Main
    "HOL-Library.Option_ord"
    "HOL-Library.Char_ord"
    "HOL-Library.List_Lexorder"
    "HOL-Library.Product_Lexorder"
begin

section \<open>County GDP pipeline: data model\<close>

text \<open>
  The two scripts are \<^verbatim>\<open>USCountyGDPDatabase(2004-2022).py\<close> (the historical
  pipeline: fetch, normalise, aggregate, store, views) and
  \<^verbatim>\<open>USCountyGDPcsvCode2022.py\<close> (the single-year table).

  Conventions of the embedding:
  \<^item> a pandas frame is the list of its rows, in index order;
  \<^item> a float64 cell is a \<open>rat option\<close>: \<open>None\<close> is NaN (stored as SQL NULL), and the
    arithmetic on the values is exact, so rounding error of the binary format is
    outside the model;
  \<^item> a Python \<open>str\<close> is a \<open>string\<close>; the word class \<^verbatim>\<open>\w\<close> is modelled on ASCII
    (letters, digits, underscore);
  \<^item> an exception that leaves a function is the \<open>Raise\<close> branch of its result (the
    \<open>Inl\<close> branch for the two Python operators).
\<close>

datatype py_error = ValueError | KeyError | TypeError

text \<open>
  What a function does on an input: it returns, it raises, or the input is one on which
  the model does not follow pandas (a number beyond the range of the binary format, a
  \<^verbatim>\<open>Data\<close> value that is neither a table of rows nor a single value).
\<close>

datatype 'a run = Return 'a | Raise py_error | Unmodelled

text \<open>One row of the frame built from the \<^verbatim>\<open>Data\<close> array of the response.\<close>

record raw_row =
  GeoFips :: string
  GeoName :: string
  DataValue :: string
  TimePeriod :: string

text \<open>
  A row after \<^verbatim>\<open>process_bea_data\<close>: the five columns that \<^verbatim>\<open>create_database\<close> reads.
\<close>

record county_record =
  fips_code :: string
  county_name :: "string option"
  state_code :: "string option"
  gdp_billions :: "rat option"
  year :: "rat option"

section \<open>String helpers of the normaliser\<close>

definition is_digit :: "char \<Rightarrow> bool" where
  "is_digit c = (c \<in> set ''0123456789'')"

definition digit_val :: "char \<Rightarrow> nat" where
  "digit_val c = of_char c - 48"

text \<open>Value of a digit string, most significant digit first.\<close>

definition digits_val :: "string \<Rightarrow> nat" where
  "digits_val ds = foldl (\<lambda>acc c. 10 * acc + digit_val c) 0 ds"

text \<open>\<^verbatim>\<open>str.replace(',', '')\<close>: every comma is removed.\<close>

definition remove_commas :: "string \<Rightarrow> string" where
  "remove_commas s = filter (\<lambda>c. c \<noteq> CHR '','') s"

definition is_space :: "char \<Rightarrow> bool" where
  "is_space c = (c \<in> set [CHR '' '', CHR 0x09, CHR 0x0A, CHR 0x0B, CHR 0x0C, CHR 0x0D])"

text \<open>
  \<^verbatim>\<open>pd.to_numeric\<close> on one cell of strings. pandas reads a cell with its own
  \<^verbatim>\<open>strtod\<close>: blanks, an optional sign, digits with an optional point (at least one
  digit), an optional exponent (\<^verbatim>\<open>e\<close> or \<^verbatim>\<open>E\<close>, an optional sign, digits; without
  digits the \<^verbatim>\<open>e\<close> is not read), blanks; the cell is a number when nothing is left.
  An empty cell is NaN and no error. The values are exact here, as rounding is outside
  the model; a cell that the binary format cannot hold as a finite number (the spellings
  of infinity that pandas accepts, a value of \<open>2 ^ 1024\<close> or more) is marked as such
  and not followed further.
\<close>

datatype parsed = Unparsable | Parsed "rat option" | OutOfRange

definition to_lower :: "char \<Rightarrow> char" where
  "to_lower c =
     (case map_of (zip ''ABCDEFGHIJKLMNOPQRSTUVWXYZ'' ''abcdefghijklmnopqrstuvwxyz'') c of
        None \<Rightarrow> c
      | Some l \<Rightarrow> l)"

definition is_infinity :: "string \<Rightarrow> bool" where
  "is_infinity s =
     (map to_lower s \<in>
        set [''inf'', ''+inf'', ''-inf'', ''infinity'', ''+infinity'', ''-infinity''])"

definition read_sign :: "string \<Rightarrow> bool \<times> string" where
  "read_sign s =
     (case s of
        [] \<Rightarrow> (False, [])
      | c # r \<Rightarrow>
          if c = CHR ''-'' then (True, r)
          else if c = CHR ''+'' then (False, r)
          else (False, s))"

definition read_fraction :: "string \<Rightarrow> string \<times> string" where
  "read_fraction s =
     (case s of
        [] \<Rightarrow> ([], [])
      | c # r \<Rightarrow>
          if c = CHR ''.'' then (takeWhile is_digit r, dropWhile is_digit r)
          else ([], s))"

definition read_exponent :: "string \<Rightarrow> int \<times> string" where
  "read_exponent s =
     (case s of
        [] \<Rightarrow> (0, [])
      | c # r \<Rightarrow>
          if c = CHR ''e'' \<or> c = CHR ''E'' then
            (let ds = takeWhile is_digit (snd (read_sign r)) in
             if ds = [] then (0, s)
             else (if fst (read_sign r) then - int (digits_val ds) else int (digits_val ds),
                   dropWhile is_digit (snd (read_sign r))))
          else (0, s))"

definition scale10 :: "rat \<Rightarrow> int \<Rightarrow> rat" where
  "scale10 m e = (if 0 \<le> e then m * 10 ^ nat e else m / 10 ^ nat (- e))"

text \<open>The number read at the front of a string and what is left; \<open>None\<close>: no digit.\<close>

definition xstrtod :: "string \<Rightarrow> (rat \<times> string) option" where
  "xstrtod s =
     (let s2 = snd (read_sign (dropWhile is_space s));
          negative = fst (read_sign (dropWhile is_space s));
          ip = takeWhile is_digit s2;
          fp = fst (read_fraction (dropWhile is_digit s2));
          s4 = snd (read_fraction (dropWhile is_digit s2)) in
      if ip = [] \<and> fp = [] then None
      else
        (let m = of_nat (digits_val ip) + of_nat (digits_val fp) / 10 ^ length fp;
             v = scale10 m (fst (read_exponent s4)) in
         Some (if negative then - v else v, dropWhile is_space (snd (read_exponent s4)))))"

definition unread :: "string \<Rightarrow> parsed" where
  "unread s = (if is_infinity s then OutOfRange else Unparsable)"

definition parse_number :: "string \<Rightarrow> parsed" where
  "parse_number s =
     (if s = [] then Parsed None
      else
        (case xstrtod s of
           None \<Rightarrow> unread s
         | Some vr \<Rightarrow>
             if snd vr = [] then
               (if 2 ^ 1024 \<le> \<bar>fst vr\<bar> then OutOfRange else Parsed (Some (fst vr)))
             else unread s))"

text \<open>
  With \<^verbatim>\<open>errors='coerce'\<close> (line 47) an unreadable cell becomes NaN. (A cell out of
  range does not come here: the functions that convert a column stop on it.)
\<close>

definition coerce :: "parsed \<Rightarrow> rat option" where
  "coerce p = (case p of Unparsable \<Rightarrow> None | Parsed v \<Rightarrow> v | OutOfRange \<Rightarrow> None)"

text \<open>
  \<^verbatim>\<open>pd.to_numeric(col)\<close> with the default \<^verbatim>\<open>errors='raise'\<close> (line 56) raises
  \<^verbatim>\<open>ValueError\<close> for the whole column when one cell is unreadable.
\<close>

fun to_numeric_raise :: "string list \<Rightarrow> rat option list run" where
  "to_numeric_raise [] = Return []"
| "to_numeric_raise (s # col) =
     (case parse_number s of
        Unparsable \<Rightarrow> Raise ValueError
      | Parsed v \<Rightarrow>
          (case to_numeric_raise col of
             Raise e \<Rightarrow> Raise e
           | Unmodelled \<Rightarrow> Unmodelled
           | Return vs \<Rightarrow> Return (v # vs))
      | OutOfRange \<Rightarrow>
          (case to_numeric_raise col of
             Raise e \<Rightarrow> Raise e
           | Unmodelled \<Rightarrow> Unmodelled
           | Return vs \<Rightarrow> Unmodelled))"

definition value_out_of_range :: "raw_row \<Rightarrow> bool" where
  "value_out_of_range r = (parse_number (remove_commas (DataValue r)) = OutOfRange)"

definition is_word_char :: "char \<Rightarrow> bool" where
  "is_word_char c =
     (c \<in> set ''abcdefghijklmnopqrstuvwxyzABCDEFGHIJKLMNOPQRSTUVWXYZ0123456789_'')"

definition newline :: char where
  "newline = CHR 0x0A"

text \<open>
  Python's \<^verbatim>\<open>$\<close> (no MULTILINE flag) matches at the end of the string and also just
  before a newline that is the last character. \<open>before_dollar s\<close> is the text in front
  of the position where \<^verbatim>\<open>$\<close> can match after a word character.
\<close>

definition before_dollar :: "string \<Rightarrow> string" where
  "before_dollar s = (if s \<noteq> [] \<and> last s = newline then butlast s else s)"

text \<open>
  The tail \<^verbatim>\<open>, (\w{2})$\<close>: the text in front of it and the two word characters.
\<close>

definition split_state_suffix :: "string \<Rightarrow> (string \<times> string) option" where
  "split_state_suffix s =
     (let t = before_dollar s; n = length t in
      if 4 \<le> n then
        (let p = take (n - 4) t; q = drop (n - 4) t in
         if take 2 q = '', '' \<and> list_all is_word_char (drop 2 q)
         then Some (p, drop 2 q) else None)
      else None)"

text \<open>
  \<^verbatim>\<open>.*\<close> does not cross a newline, and \<^verbatim>\<open>re.search\<close> takes the leftmost start from
  which the rest matches: the first group is the text after the last newline.
\<close>

definition after_last_newline :: "string \<Rightarrow> string" where
  "after_last_newline p = rev (takeWhile (\<lambda>c. c \<noteq> newline) (rev p))"

text \<open>
  \<^verbatim>\<open>str.extract(r'(.*), (\w{2})$')\<close> on one cell: both groups, or NaN for both.
\<close>

definition extract_county_state :: "string \<Rightarrow> string option \<times> string option" where
  "extract_county_state s =
     (case split_state_suffix s of
        None \<Rightarrow> (None, None)
      | Some (p, st) \<Rightarrow> (Some (after_last_newline p), Some st))"

section \<open>Record Normalizer: \<^verbatim>\<open>process_bea_data\<close>\<close>

definition normalize_row :: "raw_row \<Rightarrow> rat option \<Rightarrow> county_record" where
  "normalize_row r y =
     \<lparr> fips_code = GeoFips r,
       county_name = fst (extract_county_state (GeoName r)),
       state_code = snd (extract_county_state (GeoName r)),
       gdp_billions =
         map_option (\<lambda>v. v / 1000) (coerce (parse_number (remove_commas (DataValue r)))),
       year = y \<rparr>"

text \<open>
  The argument is the frame or \<^verbatim>\<open>None\<close>. The result is \<^verbatim>\<open>None\<close> for \<^verbatim>\<open>None\<close> and for
  an empty frame, the processed frame otherwise, and \<^verbatim>\<open>ValueError\<close> when the period column
  has an unreadable cell (line 56 converts it without \<^verbatim>\<open>errors='coerce'\<close>; line 47
  does not raise). An empty period is NaN, and the record has no year. A frame with a
  cell out of range and no unreadable period is not followed.
\<close>

definition process_bea_data :: "raw_row list option \<Rightarrow> county_record list option run" where
  "process_bea_data df =
     (case df of
        None \<Rightarrow> Return None
      | Some rows \<Rightarrow>
          if rows = [] then Return None
          else
            (case to_numeric_raise (map TimePeriod rows) of
               Raise e \<Rightarrow> Raise e
             | Unmodelled \<Rightarrow> Unmodelled
             | Return ys \<Rightarrow>
                 if list_ex value_out_of_range rows then Unmodelled
                 else Return (Some (map2 normalize_row rows ys))))"

section \<open>Remote Data Fetcher: \<^verbatim>\<open>fetch_county_gdp\<close>\<close>

text \<open>The decoded body: what \<^verbatim>\<open>response.json()\<close> returns.\<close>

datatype json =
    JNull
  | JBool bool
  | JNumber rat
  | JString string
  | JArray "json list"
  | JObject "(string \<times> json) list"

text \<open>A \<^verbatim>\<open>dict\<close> built from an object keeps the last value of a repeated key.\<close>

definition lookup :: "(string \<times> json) list \<Rightarrow> string \<Rightarrow> json option" where
  "lookup kvs k = map_of (rev kvs) k"

fun suffixes_of :: "string \<Rightarrow> string list" where
  "suffixes_of [] = [[]]"
| "suffixes_of (c # cs) = (c # cs) # suffixes_of cs"

definition contains_text :: "string \<Rightarrow> string \<Rightarrow> bool" where
  "contains_text s k = list_ex (\<lambda>t. take (length k) t = k) (suffixes_of s)"

text \<open>
  \<^verbatim>\<open>k in x\<close> for a string \<open>k\<close>: a key of a \<^verbatim>\<open>dict\<close>, an element of a list, a part
  of a string; \<^verbatim>\<open>None\<close>, a number and a truth value are not iterable.
\<close>

fun py_in :: "string \<Rightarrow> json \<Rightarrow> py_error + bool" where
  "py_in k (JObject kvs) = Inr (k \<in> set (map fst kvs))"
| "py_in k (JArray xs) = Inr (JString k \<in> set xs)"
| "py_in k (JString s) = Inr (contains_text s k)"
| "py_in k JNull = Inl TypeError"
| "py_in k (JBool b) = Inl TypeError"
| "py_in k (JNumber n) = Inl TypeError"

text \<open>\<^verbatim>\<open>x[k]\<close> for a string \<open>k\<close>: only a \<^verbatim>\<open>dict\<close> can be indexed by it.\<close>

fun py_index :: "json \<Rightarrow> string \<Rightarrow> py_error + json" where
  "py_index (JObject kvs) k = (case lookup kvs k of None \<Rightarrow> Inl KeyError | Some v \<Rightarrow> Inr v)"
| "py_index (JArray xs) k = Inl TypeError"
| "py_index (JString s) k = Inl TypeError"
| "py_index JNull k = Inl TypeError"
| "py_index (JBool b) k = Inl TypeError"
| "py_index (JNumber n) k = Inl TypeError"

text \<open>
  The rows of the model are the objects that hold a string under each of the four
  names (other names are columns that nothing reads).
\<close>

definition cell_text :: "(string \<times> json) list \<Rightarrow> string \<Rightarrow> string option" where
  "cell_text kvs k =
     (case lookup kvs k of
        None \<Rightarrow> None
      | Some v \<Rightarrow> (case v of JString t \<Rightarrow> Some t | _ \<Rightarrow> None))"

definition row_of_json :: "json \<Rightarrow> raw_row option" where
  "row_of_json j =
     (case j of
        JObject kvs \<Rightarrow>
          (case cell_text kvs ''GeoFips'' of None \<Rightarrow> None | Some f \<Rightarrow>
          (case cell_text kvs ''GeoName'' of None \<Rightarrow> None | Some n \<Rightarrow>
          (case cell_text kvs ''DataValue'' of None \<Rightarrow> None | Some v \<Rightarrow>
          (case cell_text kvs ''TimePeriod'' of None \<Rightarrow> None | Some t \<Rightarrow>
             Some \<lparr> GeoFips = f, GeoName = n, DataValue = v, TimePeriod = t \<rparr>))))
      | _ \<Rightarrow> None)"

fun rows_of_json :: "json list \<Rightarrow> raw_row list option" where
  "rows_of_json [] = Some []"
| "rows_of_json (j # js) =
     (case row_of_json j of
        None \<Rightarrow> None
      | Some r \<Rightarrow> (case rows_of_json js of None \<Rightarrow> None | Some rs \<Rightarrow> Some (r # rs)))"

text \<open>
  \<^verbatim>\<open>pd.DataFrame(d)\<close>: the empty frame for \<^verbatim>\<open>None\<close>, for an empty list and for an
  empty \<^verbatim>\<open>dict\<close>; the frame of the rows for a list of rows; \<^verbatim>\<open>ValueError\<close> for a
  string, a number or a truth value. Other lists and \<^verbatim>\<open>dict\<close>s are not followed.
\<close>

definition DataFrame :: "json \<Rightarrow> raw_row list run" where
  "DataFrame d =
     (case d of
        JNull \<Rightarrow> Return []
      | JBool b \<Rightarrow> Raise ValueError
      | JNumber n \<Rightarrow> Raise ValueError
      | JString t \<Rightarrow> Raise ValueError
      | JArray items \<Rightarrow>
          (case rows_of_json items of None \<Rightarrow> Unmodelled | Some rows \<Rightarrow> Return rows)
      | JObject kvs \<Rightarrow> if kvs = [] then Return [] else Unmodelled)"

text \<open>
  Lines 27 to 30, which the two scripts share: the three membership tests, each followed
  by the subscript, and the frame of the \<^verbatim>\<open>Data\<close> value. \<open>Return None\<close>: a test was
  false, and the function goes on after the \<^verbatim>\<open>if\<close>.
\<close>

definition frame_of_body :: "json \<Rightarrow> raw_row list option run" where
  "frame_of_body data =
     (case py_in ''BEAAPI'' data of
        Inl e \<Rightarrow> Raise e
      | Inr has_beaapi \<Rightarrow>
          if has_beaapi then
            (case py_index data ''BEAAPI'' of
               Inl e \<Rightarrow> Raise e
             | Inr beaapi \<Rightarrow>
                 (case py_in ''Results'' beaapi of
                    Inl e \<Rightarrow> Raise e
                  | Inr has_results \<Rightarrow>
                      if has_results then
                        (case py_index beaapi ''Results'' of
                           Inl e \<Rightarrow> Raise e
                         | Inr results \<Rightarrow>
                             (case py_in ''Data'' results of
                                Inl e \<Rightarrow> Raise e
                              | Inr has_data \<Rightarrow>
                                  if has_data then
                                    (case py_index results ''Data'' of
                                       Inl e \<Rightarrow> Raise e
                                     | Inr d \<Rightarrow>
                                         (case DataFrame d of
                                            Return df \<Rightarrow> Return (Some df)
                                          | Raise e \<Rightarrow> Raise e
                                          | Unmodelled \<Rightarrow> Unmodelled))
                                  else Return None))
                      else Return None))
          else Return None)"

text \<open>
  The outcome of the request of lines 23 to 25: \<^verbatim>\<open>requests.get\<close>, \<^verbatim>\<open>raise_for_status\<close>
  or \<^verbatim>\<open>response.json\<close> raised a \<^verbatim>\<open>RequestException\<close> (which an undecodable body is
  since requests 2.27), or the body was decoded.
\<close>

datatype response = RequestException | Body json

text \<open>The service, as the pipeline sees it: one response for each year asked.\<close>

type_synonym service = "nat \<Rightarrow> response"

text \<open>
  Only \<^verbatim>\<open>RequestException\<close> is caught (line 37): the \<^verbatim>\<open>TypeError\<close> of a test or a
  subscript and the \<^verbatim>\<open>ValueError\<close> of the constructor leave the function.
\<close>

definition fetch_county_gdp :: "service \<Rightarrow> nat \<Rightarrow> raw_row list option run" where
  "fetch_county_gdp bea y =
     (case bea y of
        RequestException \<Rightarrow> Return None
      | Body data \<Rightarrow> frame_of_body data)"

section \<open>Aggregator: the \<^verbatim>\<open>groupby\<close> of \<^verbatim>\<open>create_database\<close>\<close>

text \<open>Columns in the order of line 94.\<close>

record state_summary =
  ss_state_code :: string
  ss_year :: rat
  total_gdp :: rat
  num_counties :: nat

text \<open>
  \<^verbatim>\<open>groupby(['state_code', 'year'])\<close> with the defaults \<^verbatim>\<open>sort=True\<close> and
  \<^verbatim>\<open>dropna=True\<close>: the keys are the distinct pairs of the rows whose state code and
  year are not NaN, in ascending order.
\<close>

definition group_key :: "county_record \<Rightarrow> (string \<times> rat) option" where
  "group_key r =
     (case state_code r of
        None \<Rightarrow> None
      | Some s \<Rightarrow> (case year r of None \<Rightarrow> None | Some y \<Rightarrow> Some (s, y)))"

definition group_keys :: "county_record list \<Rightarrow> (string \<times> rat) list" where
  "group_keys all_data = sort (remdups (List.map_filter group_key all_data))"

definition group_rows :: "county_record list \<Rightarrow> string \<times> rat \<Rightarrow> county_record list" where
  "group_rows all_data k = filter (\<lambda>r. group_key r = Some k) all_data"

text \<open>
  \<^verbatim>\<open>'sum'\<close> adds the cells that are not NaN (0 when there is none); \<^verbatim>\<open>'count'\<close> counts
  the cells of the column that are not NaN.
\<close>

definition agg_sum :: "rat option list \<Rightarrow> rat" where
  "agg_sum col = sum_list (List.map_filter id col)"

definition agg_count :: "rat option list \<Rightarrow> nat" where
  "agg_count col = length (List.map_filter id col)"

definition summarize :: "county_record list \<Rightarrow> string \<times> rat \<Rightarrow> state_summary" where
  "summarize all_data k =
     \<lparr> ss_state_code = fst k,
       ss_year = snd k,
       total_gdp = agg_sum (map gdp_billions (group_rows all_data k)),
       num_counties = agg_count (map gdp_billions (group_rows all_data k)) \<rparr>"

definition state_summaries :: "county_record list \<Rightarrow> state_summary list" where
  "state_summaries all_data = map (summarize all_data) (group_keys all_data)"

section \<open>Schema Builder and Store: \<^verbatim>\<open>create_database\<close>\<close>

record table_schema =
  columns :: "string list"
  primary_key :: "string list"
  foreign_key :: "(string list \<times> string \<times> string list) option"

text \<open>
  The database file. A table that does not exist has no schema and no rows. Views and
  indexes are kept by name; what a view returns is defined on the tables further down.
\<close>

record database =
  states_schema :: "table_schema option"
  states_rows :: "state_summary list"
  counties_schema :: "table_schema option"
  counties_rows :: "county_record list"
  views :: "string list"
  indexes :: "string list"

definition empty_database :: database where
  "empty_database =
     \<lparr> states_schema = None, states_rows = [],
       counties_schema = None, counties_rows = [],
       views = [], indexes = [] \<rparr>"

text \<open>The two \<^verbatim>\<open>CREATE TABLE IF NOT EXISTS\<close> statements of lines 67 to 87.\<close>

definition states_ddl :: table_schema where
  "states_ddl =
     \<lparr> columns = [''state_code'', ''total_gdp'', ''num_counties'', ''year''],
       primary_key = [''state_code'', ''year''],
       foreign_key = None \<rparr>"

definition counties_ddl :: table_schema where
  "counties_ddl =
     \<lparr> columns = [''fips_code'', ''county_name'', ''state_code'', ''gdp_billions'', ''year''],
       primary_key = [''fips_code'', ''year''],
       foreign_key = Some ([''state_code'', ''year''], ''states'', [''state_code'', ''year'']) \<rparr>"

text \<open>
  The table that \<^verbatim>\<open>to_sql\<close> creates from a frame: one column for each column of the
  frame, and no key of any kind.
\<close>

definition states_frame_schema :: table_schema where
  "states_frame_schema =
     \<lparr> columns = [''state_code'', ''year'', ''total_gdp'', ''num_counties''],
       primary_key = [],
       foreign_key = None \<rparr>"

definition counties_frame_schema :: table_schema where
  "counties_frame_schema =
     \<lparr> columns = [''fips_code'', ''county_name'', ''state_code'', ''gdp_billions'', ''year''],
       primary_key = [],
       foreign_key = None \<rparr>"

definition counties_indexes :: "string list" where
  "counties_indexes =
     [''idx_counties_state_year'', ''idx_counties_gdp'', ''idx_counties_fips_year'']"

text \<open>
  The statements that \<^verbatim>\<open>create_database\<close> sends, in order. \<^verbatim>\<open>to_sql\<close> with
  \<^verbatim>\<open>if_exists='replace'\<close> is three of them: it drops the table, creates it again from
  the frame, and inserts the rows of the frame. The function opens no transaction around
  them and catches nothing, so each statement is durable once it has run.
\<close>

datatype statement =
    CreateStatesIfNotExists
  | CreateCountiesIfNotExists
  | DropStates
  | CreateStatesFromFrame
  | InsertStates
  | DropCounties
  | CreateCountiesFromFrame
  | InsertCounties
  | CreateViewIfNotExists string
  | CreateIndexIfNotExists string
  | Commit

definition add_name :: "string \<Rightarrow> string list \<Rightarrow> string list" where
  "add_name n ns = (if n \<in> set ns then ns else ns @ [n])"

fun exec :: "county_record list \<Rightarrow> statement \<Rightarrow> database \<Rightarrow> database" where
  "exec all_data CreateStatesIfNotExists db =
     (if states_schema db = None
      then db\<lparr>states_schema := Some states_ddl, states_rows := []\<rparr> else db)"
| "exec all_data CreateCountiesIfNotExists db =
     (if counties_schema db = None
      then db\<lparr>counties_schema := Some counties_ddl, counties_rows := []\<rparr> else db)"
| "exec all_data DropStates db = db\<lparr>states_schema := None, states_rows := []\<rparr>"
| "exec all_data CreateStatesFromFrame db =
     db\<lparr>states_schema := Some states_frame_schema, states_rows := []\<rparr>"
| "exec all_data InsertStates db =
     db\<lparr>states_rows := states_rows db @ state_summaries all_data\<rparr>"
| "exec all_data DropCounties db =
     db\<lparr>counties_schema := None, counties_rows := [],
        indexes := filter (\<lambda>n. n \<notin> set counties_indexes) (indexes db)\<rparr>"
| "exec all_data CreateCountiesFromFrame db =
     db\<lparr>counties_schema := Some counties_frame_schema, counties_rows := []\<rparr>"
| "exec all_data InsertCounties db =
     db\<lparr>counties_rows := counties_rows db @ all_data\<rparr>"
| "exec all_data (CreateViewIfNotExists n) db = db\<lparr>views := add_name n (views db)\<rparr>"
| "exec all_data (CreateIndexIfNotExists n) db = db\<lparr>indexes := add_name n (indexes db)\<rparr>"
| "exec all_data Commit db = db"

definition script :: "statement list" where
  "script =
     [CreateStatesIfNotExists, CreateCountiesIfNotExists,
      DropStates, CreateStatesFromFrame, InsertStates,
      DropCounties, CreateCountiesFromFrame, InsertCounties,
      CreateViewIfNotExists ''county_growth'',
      CreateViewIfNotExists ''state_growth'',
      CreateViewIfNotExists ''county_rankings_by_year'',
      CreateIndexIfNotExists ''idx_counties_state_year'',
      CreateIndexIfNotExists ''idx_counties_gdp'',
      CreateIndexIfNotExists ''idx_counties_fips_year'',
      Commit]"

definition run :: "county_record list \<Rightarrow> statement list \<Rightarrow> database \<Rightarrow> database" where
  "run all_data stmts db = foldl (\<lambda>d s. exec all_data s d) db stmts"

text \<open>\<^verbatim>\<open>sqlite3.connect\<close> opens the file, and creates an empty one when there is none.\<close>

definition connect :: "database option \<Rightarrow> database" where
  "connect file = (case file of None \<Rightarrow> empty_database | Some db \<Rightarrow> db)"

definition create_database :: "county_record list \<Rightarrow> database option \<Rightarrow> database" where
  "create_database all_data file = run all_data script (connect file)"

text \<open>
  The file as it is left when statement number \<open>k\<close> (counted from 0) raises: the
  statements before it have run, the exception leaves \<^verbatim>\<open>create_database\<close> and
  \<^verbatim>\<open>main\<close>, and nothing undoes them.
\<close>

definition create_database_failing ::
  "nat \<Rightarrow> county_record list \<Rightarrow> database option \<Rightarrow> database" where
  "create_database_failing k all_data file = run all_data (take k script) (connect file)"

section \<open>Views\<close>

text \<open>
  SQLite arithmetic on REAL values: NULL in, NULL out, and a division by zero is NULL.
\<close>

definition sql_div :: "rat option \<Rightarrow> rat option \<Rightarrow> rat option" where
  "sql_div a b =
     (case a of
        None \<Rightarrow> None
      | Some x \<Rightarrow>
          (case b of
             None \<Rightarrow> None
           | Some y \<Rightarrow> if y = 0 then None else Some (x / y)))"

definition sql_minus :: "rat option \<Rightarrow> rat option \<Rightarrow> rat option" where
  "sql_minus a b =
     (case a of
        None \<Rightarrow> None
      | Some x \<Rightarrow> (case b of None \<Rightarrow> None | Some y \<Rightarrow> Some (x - y)))"

text \<open>
  \<^verbatim>\<open>a LEFT JOIN b ON cond\<close>: every row of \<open>a\<close> with each row of \<open>b\<close> that satisfies
  the condition, or once with NULLs when there is none.
\<close>

definition left_join :: "('a \<Rightarrow> 'b \<Rightarrow> bool) \<Rightarrow> 'a list \<Rightarrow> 'b list \<Rightarrow> ('a \<times> 'b option) list" where
  "left_join cond as bs =
     concat (map (\<lambda>a. let ms = filter (cond a) bs in
                       if ms = [] then [(a, None)] else map (\<lambda>b. (a, Some b)) ms) as)"

record growth_row =
  g_fips_code :: string
  g_county_name :: "string option"
  g_state_code :: "string option"
  g_year :: "rat option"
  g_gdp_billions :: "rat option"
  annual_growth_rate :: "rat option"

text \<open>The \<^verbatim>\<open>ON\<close> condition; a comparison with a NULL year is not true.\<close>

definition prev_year_cond :: "county_record \<Rightarrow> county_record \<Rightarrow> bool" where
  "prev_year_cond c1 c2 =
     (fips_code c1 = fips_code c2 \<and>
      (case year c1 of
         None \<Rightarrow> False
       | Some y1 \<Rightarrow> (case year c2 of None \<Rightarrow> False | Some y2 \<Rightarrow> y1 = y2 + 1)))"

definition growth_of :: "county_record \<times> county_record option \<Rightarrow> growth_row" where
  "growth_of j =
     (let c1 = fst j in
      \<lparr> g_fips_code = fips_code c1,
        g_county_name = county_name c1,
        g_state_code = state_code c1,
        g_year = year c1,
        g_gdp_billions = gdp_billions c1,
        annual_growth_rate =
          sql_minus
            (sql_div (gdp_billions c1)
               (case snd j of None \<Rightarrow> None | Some c2 \<Rightarrow> gdp_billions c2))
            (Some 1) \<rparr>)"

definition county_growth :: "county_record list \<Rightarrow> growth_row list" where
  "county_growth counties = map growth_of (left_join prev_year_cond counties counties)"

text \<open>
  \<^verbatim>\<open>RANK() OVER (... ORDER BY k DESC)\<close>: the row number of the first peer of the row
  in its partition sorted by \<open>k\<close>, largest first. SQLite orders NULL below every
  value, as the order on \<open>option\<close> does with \<open>None\<close>.
\<close>

definition sql_rank_desc :: "'k::linorder list \<Rightarrow> 'k \<Rightarrow> nat" where
  "sql_rank_desc ks k = Suc (length (takeWhile (\<lambda>k'. k' \<noteq> k) (rev (sort ks))))"

record ranking_row =
  r_state_code :: "string option"
  r_county_name :: "string option"
  r_gdp_billions :: "rat option"
  r_year :: "rat option"
  rank_in_state :: nat
  rank_national :: nat

text \<open>\<^verbatim>\<open>PARTITION BY\<close> puts rows with equal values together, NULL with NULL.\<close>

definition state_partition :: "county_record list \<Rightarrow> county_record \<Rightarrow> county_record list" where
  "state_partition counties c =
     filter (\<lambda>c'. state_code c' = state_code c \<and> year c' = year c) counties"

definition year_partition :: "county_record list \<Rightarrow> county_record \<Rightarrow> county_record list" where
  "year_partition counties c = filter (\<lambda>c'. year c' = year c) counties"

definition ranking_of :: "county_record list \<Rightarrow> county_record \<Rightarrow> ranking_row" where
  "ranking_of counties c =
     \<lparr> r_state_code = state_code c,
       r_county_name = county_name c,
       r_gdp_billions = gdp_billions c,
       r_year = year c,
       rank_in_state =
         sql_rank_desc (map gdp_billions (state_partition counties c)) (gdp_billions c),
       rank_national =
         sql_rank_desc (map gdp_billions (year_partition counties c)) (gdp_billions c) \<rparr>"

definition county_rankings_by_year :: "county_record list \<Rightarrow> ranking_row list" where
  "county_rankings_by_year counties = map (ranking_of counties) counties"

section \<open>Orchestration: \<^verbatim>\<open>main\<close>\<close>

definition years :: "nat list" where
  "years = [2004 ..< 2023]"

text \<open>
  The loop of lines 165 to 173: the processed frames of the years that gave one, in
  the order of the years. A \<^verbatim>\<open>ValueError\<close> of \<^verbatim>\<open>process_bea_data\<close> is not caught.
\<close>

fun collect :: "service \<Rightarrow> nat list \<Rightarrow> county_record list list run" where
  "collect bea [] = Return []"
| "collect bea (y # ys) =
     (case fetch_county_gdp bea y of
        Raise e \<Rightarrow> Raise e
      | Unmodelled \<Rightarrow> Unmodelled
      | Return None \<Rightarrow> collect bea ys
      | Return (Some raw_data) \<Rightarrow>
          (case process_bea_data (Some raw_data) of
             Raise e \<Rightarrow> Raise e
           | Unmodelled \<Rightarrow> Unmodelled
           | Return None \<Rightarrow> collect bea ys
           | Return (Some processed_data) \<Rightarrow>
               (case collect bea ys of
                  Raise e \<Rightarrow> Raise e
                | Unmodelled \<Rightarrow> Unmodelled
                | Return frames \<Rightarrow> Return (processed_data # frames))))"

text \<open>
  How a run ends: with an exception, at the early \<^verbatim>\<open>return\<close> of line 177, or after
  \<^verbatim>\<open>create_database\<close> was called (the read-only report that follows is not modelled).
\<close>

datatype outcome = Raised py_error | NoDataFetched | DatabaseCreated

text \<open>
  The second component is the database file after the run; \<open>None\<close>: there is none. The
  result is \<open>None\<close> for a run that the model does not follow.
\<close>

definition main :: "service \<Rightarrow> database option \<Rightarrow> (outcome \<times> database option) option" where
  "main bea file =
     (case collect bea years of
        Raise e \<Rightarrow> Some (Raised e, file)
      | Unmodelled \<Rightarrow> None
      | Return all_data_frames \<Rightarrow>
          if all_data_frames = [] then Some (NoDataFetched, file)
          else Some (DatabaseCreated, Some (create_database (concat all_data_frames) file)))"

section \<open>The single-year table: \<^verbatim>\<open>get_county_gdp_by_state\<close>\<close>

text \<open>
  \<^verbatim>\<open>str.replace(r' County, \w{2}$', '', regex=True)\<close>: the tail is cut out when the
  label has it (a final newline after it stays), and the label is left as it is
  otherwise.
\<close>

definition strip_county_suffix :: "string \<Rightarrow> string" where
  "strip_county_suffix s =
     (let t = before_dollar s; n = length t in
      if 11 \<le> n \<and> take 9 (drop (n - 11) t) = '' County, ''
           \<and> list_all is_word_char (drop (n - 2) t)
      then take (n - 11) t @ drop n s
      else s)"

definition state_names :: "(string \<times> string) list" where
  "state_names =
     [(''AL'', ''Alabama''), (''AK'', ''Alaska''), (''AZ'', ''Arizona''), (''AR'', ''Arkansas''),
      (''CA'', ''California''), (''CO'', ''Colorado''), (''CT'', ''Connecticut''),
      (''DE'', ''Delaware''), (''FL'', ''Florida''), (''GA'', ''Georgia''), (''HI'', ''Hawaii''),
      (''ID'', ''Idaho''), (''IL'', ''Illinois''), (''IN'', ''Indiana''), (''IA'', ''Iowa''),
      (''KS'', ''Kansas''), (''KY'', ''Kentucky''), (''LA'', ''Louisiana''), (''ME'', ''Maine''),
      (''MD'', ''Maryland''), (''MA'', ''Massachusetts''), (''MI'', ''Michigan''),
      (''MN'', ''Minnesota''), (''MS'', ''Mississippi''), (''MO'', ''Missouri''),
      (''MT'', ''Montana''), (''NE'', ''Nebraska''), (''NV'', ''Nevada''),
      (''NH'', ''New Hampshire''), (''NJ'', ''New Jersey''), (''NM'', ''New Mexico''),
      (''NY'', ''New York''), (''NC'', ''North Carolina''), (''ND'', ''North Dakota''),
      (''OH'', ''Ohio''), (''OK'', ''Oklahoma''), (''OR'', ''Oregon''), (''PA'', ''Pennsylvania''),
      (''RI'', ''Rhode Island''), (''SC'', ''South Carolina''), (''SD'', ''South Dakota''),
      (''TN'', ''Tennessee''), (''TX'', ''Texas''), (''UT'', ''Utah''), (''VT'', ''Vermont''),
      (''VA'', ''Virginia''), (''WA'', ''Washington''), (''WV'', ''West Virginia''),
      (''WI'', ''Wisconsin''), (''WY'', ''Wyoming''), (''DC'', ''District of Columbia'')]"

text \<open>The columns that lines 34 to 57 add to a row, with the code it came with.\<close>

record cleaned_row =
  c_GeoFips :: string
  GDP :: "rat option"
  State :: "string option"
  County :: string
  GDP_Billions :: "rat option"
  StateName :: "string option"

definition clean_row :: "raw_row \<Rightarrow> cleaned_row" where
  "clean_row r =
     (let gdp = coerce (parse_number (remove_commas (DataValue r)));
          st = snd (extract_county_state (GeoName r)) in
      \<lparr> c_GeoFips = GeoFips r,
        GDP = gdp,
        State = st,
        County = strip_county_suffix (GeoName r),
        GDP_Billions = map_option (\<lambda>v. v / 1000000) gdp,
        StateName = (case st of None \<Rightarrow> None | Some code \<Rightarrow> map_of state_names code) \<rparr>)"

text \<open>
  \<^verbatim>\<open>sort_values(['StateName', 'GDP'], ascending=[True, False])\<close>: by state name upwards,
  then by value downwards, NaN last in both columns; rows that compare equal keep their
  order.
\<close>

definition name_before :: "string option \<Rightarrow> string option \<Rightarrow> bool" where
  "name_before a b =
     (case a of
        None \<Rightarrow> False
      | Some x \<Rightarrow> (case b of None \<Rightarrow> True | Some y \<Rightarrow> x < y))"

definition value_before :: "rat option \<Rightarrow> rat option \<Rightarrow> bool" where
  "value_before a b =
     (case a of
        None \<Rightarrow> False
      | Some x \<Rightarrow> (case b of None \<Rightarrow> True | Some y \<Rightarrow> y < x))"

definition row_before :: "cleaned_row \<Rightarrow> cleaned_row \<Rightarrow> bool" where
  "row_before a b =
     (if name_before (StateName a) (StateName b) then True
      else if StateName a = StateName b then value_before (GDP a) (GDP b)
      else False)"

fun insert_row :: "cleaned_row \<Rightarrow> cleaned_row list \<Rightarrow> cleaned_row list" where
  "insert_row x [] = [x]"
| "insert_row x (y # ys) =
     (if row_before y x then y # insert_row x ys else x # y # ys)"

definition sort_values :: "cleaned_row list \<Rightarrow> cleaned_row list" where
  "sort_values df = foldr insert_row df []"

text \<open>\<^verbatim>\<open>round(3)\<close>: to three decimals, a tie going to the even neighbour.\<close>

definition round_half_even :: "rat \<Rightarrow> int" where
  "round_half_even x =
     (let f = \<lfloor>x\<rfloor>; d = x - of_int f in
      if d < 1 / 2 then f
      else if 1 / 2 < d then f + 1
      else if even f then f else f + 1)"

definition round3 :: "rat \<Rightarrow> rat" where
  "round3 x = of_int (round_half_even (x * 1000)) / 1000"

text \<open>The four columns of the returned table, in the order of line 63.\<close>

record output_row =
  o_StateName :: "string option"
  o_County :: string
  o_GDP_Billions :: "rat option"
  o_GeoFips :: string

definition output_of :: "cleaned_row \<Rightarrow> output_row" where
  "output_of c =
     \<lparr> o_StateName = StateName c,
       o_County = County c,
       o_GDP_Billions = map_option round3 (GDP_Billions c),
       o_GeoFips = c_GeoFips c \<rparr>"

text \<open>
  The result is the returned table; the empty list is the empty frame of lines 72 and
  76. A frame without rows has no columns, and line 34 raises \<^verbatim>\<open>KeyError\<close> on it.
\<close>

definition get_county_gdp_by_state :: "response \<Rightarrow> output_row list run" where
  "get_county_gdp_by_state resp =
     (case resp of
        RequestException \<Rightarrow> Return []
      | Body data \<Rightarrow>
          (case frame_of_body data of
             Raise e \<Rightarrow> Raise e
           | Unmodelled \<Rightarrow> Unmodelled
           | Return None \<Rightarrow> Return []
           | Return (Some rows) \<Rightarrow>
               if rows = [] then Raise KeyError
               else if list_ex value_out_of_range rows then Unmodelled
               else Return (map output_of (sort_values (map clean_row rows)))))"

section \<open>Properties read off the views\<close>

text \<open>
  The stored records of the same county for the year just before the year of a record.
\<close>

definition preceding_records :: "county_record list \<Rightarrow> county_record \<Rightarrow> county_record list" where
  "preceding_records counties c1 =
     filter (\<lambda>c2. fips_code c2 = fips_code c1 \<and>
                   (case year c1 of None \<Rightarrow> False | Some y \<Rightarrow> year c2 = Some (y - 1)))
       counties"

text \<open>
  The rate in words: current value divided by the previous one, minus 1, and NULL when
  one of the two is NULL or the previous one is 0.
\<close>

definition rate_of :: "county_record \<Rightarrow> county_record \<Rightarrow> rat option" where
  "rate_of c1 c2 =
     (case gdp_billions c1 of
        None \<Rightarrow> None
      | Some cur \<Rightarrow>
          (case gdp_billions c2 of
             None \<Rightarrow> None
           | Some prev \<Rightarrow> if prev = 0 then None else Some (cur / prev - 1)))"

text \<open>The row of a stored record with a given rate.\<close>

definition view_row :: "county_record \<Rightarrow> rat option \<Rightarrow> growth_row" where
  "view_row c1 rate =
     \<lparr> g_fips_code = fips_code c1,
       g_county_name = county_name c1,
       g_state_code = state_code c1,
       g_year = year c1,
       g_gdp_billions = gdp_billions c1,
       annual_growth_rate = rate \<rparr>"

definition record_key :: "county_record \<Rightarrow> string \<times> rat option" where
  "record_key c = (fips_code c, year c)"

text \<open>The number of rows of a partition that sort strictly above a row.\<close>

definition count_above :: "county_record list \<Rightarrow> county_record \<Rightarrow> nat" where
  "count_above part c = length (filter (\<lambda>c'. gdp_billions c < gdp_billions c') part)"

section \<open>Sample data\<close>

definition autauga_row :: raw_row where
  "autauga_row =
     \<lparr> GeoFips = ''01001'', GeoName = ''Autauga, AL'',
       DataValue = ''1,234.5'', TimePeriod = ''2020'' \<rparr>"

definition baldwin_na_row :: raw_row where
  "baldwin_na_row =
     \<lparr> GeoFips = ''01003'', GeoName = ''Baldwin, AL'',
       DataValue = ''(NA)'', TimePeriod = ''2020'' \<rparr>"

definition unlabelled_row :: raw_row where
  "unlabelled_row =
     \<lparr> GeoFips = ''01000'', GeoName = ''Alabama'',
       DataValue = ''500'', TimePeriod = ''2020'' \<rparr>"

definition bad_period_row :: raw_row where
  "bad_period_row =
     \<lparr> GeoFips = ''01005'', GeoName = ''Barbour, AL'',
       DataValue = ''500'', TimePeriod = ''20X0'' \<rparr>"

definition autauga_output :: output_row where
  "autauga_output =
     \<lparr> o_StateName = Some ''Alabama'', o_County = ''Autauga, AL'',
       o_GDP_Billions = Some (1 / 1000), o_GeoFips = ''01001'' \<rparr>"

definition autauga_2019 :: county_record where
  "autauga_2019 =
     \<lparr> fips_code = ''01001'', county_name = Some ''Autauga'', state_code = Some ''AL'',
       gdp_billions = Some 1, year = Some 2019 \<rparr>"

definition autauga_2020 :: county_record where
  "autauga_2020 =
     \<lparr> fips_code = ''01001'', county_name = Some ''Autauga'', state_code = Some ''AL'',
       gdp_billions = Some (3 / 2), year = Some 2020 \<rparr>"

definition baldwin_2020 :: county_record where
  "baldwin_2020 =
     \<lparr> fips_code = ''01003'', county_name = Some ''Baldwin'', state_code = Some ''AL'',
       gdp_billions = None, year = Some 2020 \<rparr>"

definition unlabelled_2020 :: county_record where
  "unlabelled_2020 =
     \<lparr> fips_code = ''01000'', county_name = None, state_code = None,
       gdp_billions = Some 5, year = Some 2020 \<rparr>"

definition autauga_growth_2020 :: growth_row where
  "autauga_growth_2020 =
     \<lparr> g_fips_code = ''01001'', g_county_name = Some ''Autauga'', g_state_code = Some ''AL'',
       g_year = Some 2020, g_gdp_billions = Some (3 / 2),
       annual_growth_rate = Some (1 / 2) \<rparr>"

definition autauga_growth_2019 :: growth_row where
  "autauga_growth_2019 =
     \<lparr> g_fips_code = ''01001'', g_county_name = Some ''Autauga'', g_state_code = Some ''AL'',
       g_year = Some 2019, g_gdp_billions = Some 1, annual_growth_rate = None \<rparr>"

text \<open>A database as an earlier run on one record leaves it.\<close>

definition prior_database :: database where
  "prior_database = create_database [autauga_2019] None"

text \<open>A body with the expected structure around the items of its \<^verbatim>\<open>Data\<close> array.\<close>

definition body_with :: "json list \<Rightarrow> json" where
  "body_with items =
     JObject [(''BEAAPI'', JObject [(''Results'', JObject [(''Data'', JArray items)])])]"

definition json_of_row :: "raw_row \<Rightarrow> json" where
  "json_of_row r =
     JObject [(''GeoFips'', JString (GeoFips r)), (''GeoName'', JString (GeoName r)),
              (''DataValue'', JString (DataValue r)), (''TimePeriod'', JString (TimePeriod r))]"

text \<open>
  Services: every request fails; every year has an empty \<^verbatim>\<open>Data\<close> array; every year
  has \<^verbatim>\<open>null\<close> under \<^verbatim>\<open>BEAAPI\<close>.
\<close>

definition failing_service :: service where
  "failing_service = (\<lambda>y. RequestException)"


definition null_beaapi_service :: service where
  "null_beaapi_service = (\<lambda>y. Body (JObject [(''BEAAPI'', JNull)]))"

section \<open>Evaluation rules and auxiliary facts\<close>

lemmas string_defs =
  parse_number_def unread_def is_infinity_def to_lower_def xstrtod_def read_sign_def
  read_fraction_def read_exponent_def scale10_def coerce_def is_space_def remove_commas_def
  is_digit_def digits_val_def digit_val_def value_out_of_range_def
  extract_county_state_def split_state_suffix_def before_dollar_def newline_def is_word_char_def
  after_last_newline_def

lemmas json_defs =
  frame_of_body_def DataFrame_def row_of_json_def cell_text_def lookup_def body_with_def
  json_of_row_def

lemmas agg_defs =
  state_summaries_def group_keys_def group_key_def summarize_def group_rows_def agg_sum_def
  agg_count_def List.map_filter_simps

lemma create_database_rows:
  "states_rows (create_database all_data file) = state_summaries all_data \<and>
   counties_rows (create_database all_data file) = all_data"
  by (simp add: create_database_def run_def script_def)

lemma create_database_schemas:
  "states_schema (create_database all_data file) = Some states_frame_schema \<and>
   counties_schema (create_database all_data file) = Some counties_frame_schema"
  by (simp add: create_database_def run_def script_def)

subsection \<open>Aggregator\<close>

text \<open>
  What the two aggregates of a summary row are, for every input: the sum and the number
  of the values of the group that are not NaN.
\<close>

lemma map_filter_id_map: "List.map_filter id (map f xs) = List.map_filter f xs"
  by (induction xs) (simp_all add: List.map_filter_simps split: option.splits)

lemma length_map_filter:
  "length (List.map_filter f xs) = length (filter (\<lambda>r. f r \<noteq> None) xs)"
  by (induction xs) (simp_all add: List.map_filter_simps split: option.splits)

lemma summarize_aggregates:
  "total_gdp (summarize all_data k) =
     sum_list (List.map_filter gdp_billions (group_rows all_data k))
   \<and> num_counties (summarize all_data k) =
     length (filter (\<lambda>r. gdp_billions r \<noteq> None) (group_rows all_data k))"
  by (simp add: summarize_def agg_sum_def agg_count_def map_filter_id_map length_map_filter)

lemma map_filter_drop:
  "f c = None \<Longrightarrow> List.map_filter f (xs @ c # ys) = List.map_filter f (xs @ ys)"
  by (simp add: List.map_filter_def)

lemma state_summaries_drop_null:
  assumes "state_code c = None"
  shows "state_summaries (xs @ c # ys) = state_summaries (xs @ ys)"
proof -
  from assms have gk: "group_key c = None" by (simp add: group_key_def)
  then have keys: "group_keys (xs @ c # ys) = group_keys (xs @ ys)"
    by (simp add: group_keys_def map_filter_drop)
  from gk have "group_rows (xs @ c # ys) k = group_rows (xs @ ys) k" for k
    by (simp add: group_rows_def)
  then have "summarize (xs @ c # ys) = summarize (xs @ ys)"
    by (simp add: summarize_def fun_eq_iff)
  with keys show ?thesis by (simp add: state_summaries_def)
qed

subsection \<open>The statements of \<^verbatim>\<open>create_database\<close>\<close>

lemma prior_database_rows:
  "states_rows prior_database =
     [\<lparr> ss_state_code = ''AL'', ss_year = 2019, total_gdp = 1, num_counties = 1 \<rparr>]
   \<and> counties_rows prior_database = [autauga_2019]
   \<and> states_schema prior_database = Some states_frame_schema
   \<and> counties_schema prior_database = Some counties_frame_schema"
  by (simp add: prior_database_def create_database_rows create_database_schemas agg_defs
      autauga_2019_def)

lemma summaries_autauga_2020:
  "state_summaries [autauga_2020] =
     [\<lparr> ss_state_code = ''AL'', ss_year = 2020, total_gdp = 3 / 2, num_counties = 1 \<rparr>]"
  by (simp add: agg_defs autauga_2020_def)

lemma failing_cases:
  "k = 0 \<or> k = 1 \<or> k = 2 \<or> k = 3 \<or> k = 4 \<or> k = 5 \<or> k = 6 \<or> k = 7 \<or> (8::nat) \<le> k"
  by arith

lemma run_append: "run all_data (xs @ ys) db = run all_data ys (run all_data xs db)"
  by (simp add: run_def)

lemma rows_after_loads:
  assumes "8 \<le> k"
  shows "states_rows (run all_data (take k script) db) = state_summaries all_data
       \<and> counties_rows (run all_data (take k script) db) = all_data"
proof -
  have rest: "states_rows (run all_data stmts d) = states_rows d
            \<and> counties_rows (run all_data stmts d) = counties_rows d"
    if "set stmts \<subseteq> set (drop 8 script)" for stmts d
    using that
  proof (induction stmts arbitrary: d)
    case Nil
    then show ?case by (simp add: run_def)
  next
    case (Cons s stmts)
    then have "s \<in> set (drop 8 script)" and sub: "set stmts \<subseteq> set (drop 8 script)" by simp_all
    then have step: "states_rows (exec all_data s d) = states_rows d
                   \<and> counties_rows (exec all_data s d) = counties_rows d"
      by (auto simp: script_def)
    have "run all_data (s # stmts) d = run all_data stmts (exec all_data s d)"
      by (simp add: run_def)
    with Cons.IH [OF sub, of "exec all_data s d"] step show ?case by simp
  qed
  from assms have split: "take k script = take 8 script @ take (k - 8) (drop 8 script)"
    by (metis le_add_diff_inverse take_add)
  have sub: "set (take (k - 8) (drop 8 script)) \<subseteq> set (drop 8 script)"
    by (rule set_take_subset)
  have first: "states_rows (run all_data (take 8 script) db) = state_summaries all_data
             \<and> counties_rows (run all_data (take 8 script) db) = all_data"
    by (simp add: run_def script_def)
  show ?thesis
    unfolding split run_append using rest [OF sub] first by simp
qed

subsection \<open>Joins and ranks\<close>

lemma left_join_set:
  "(a, m) \<in> set (left_join cond as bs) \<longleftrightarrow>
     a \<in> set as \<and> (case m of None \<Rightarrow> (\<forall>b\<in>set bs. \<not> cond a b) | Some b \<Rightarrow> b \<in> set bs \<and> cond a b)"
  by (cases m) (auto simp: left_join_def Let_def filter_empty_conv split: if_splits)

lemma filter_unique_key:
  "distinct (map f xs) \<Longrightarrow> length (filter (\<lambda>x. f x = k) xs) \<le> 1"
proof (induction xs)
  case Nil
  then show ?case by simp
next
  case (Cons x xs)
  show ?case
  proof (cases "f x = k")
    case True
    from Cons.prems have "f x \<notin> f ` set xs" by simp
    with True have "\<forall>y\<in>set xs. f y \<noteq> k" by blast
    then have "filter (\<lambda>x. f x = k) xs = []" by (simp add: filter_empty_conv)
    with True show ?thesis by simp
  next
    case False
    with Cons show ?thesis by simp
  qed
qed

lemma preceding_records_unique:
  assumes "distinct (map record_key counties)"
  shows "length (preceding_records counties c1) \<le> 1"
proof (cases "year c1")
  case None
  then show ?thesis by (simp add: preceding_records_def)
next
  case (Some y)
  have "preceding_records counties c1 =
          filter (\<lambda>c. record_key c = (fips_code c1, Some (y - 1))) counties"
    unfolding preceding_records_def record_key_def
    by (rule filter_cong) (simp_all add: Some)
  with filter_unique_key [OF assms, of "(fips_code c1, Some (y - 1))"] show ?thesis by simp
qed

lemma preceding_records_join:
  "preceding_records counties c1 = filter (prev_year_cond c1) counties"
  unfolding preceding_records_def
  by (rule filter_cong) (auto simp: prev_year_cond_def split: option.splits)

lemma growth_of_view_row:
  "growth_of (c1, None) = view_row c1 None"
  "growth_of (c1, Some c2) = view_row c1 (rate_of c1 c2)"
  by (simp_all add: growth_of_def view_row_def rate_of_def sql_minus_def sql_div_def
      split: option.splits)

text \<open>
  In a list sorted downwards, the elements in front of the first occurrence of \<open>k\<close> are
  those strictly above \<open>k\<close>.
\<close>

lemma takeWhile_descending:
  fixes k :: "'k::linorder"
  assumes "sorted_wrt (\<lambda>a b. b \<le> a) xs" and "k \<in> set xs"
  shows "takeWhile (\<lambda>x. x \<noteq> k) xs = filter (\<lambda>x. k < x) xs"
  using assms
proof (induction xs)
  case Nil
  then show ?case by simp
next
  case (Cons x xs)
  show ?case
  proof (cases "x = k")
    case True
    with Cons.prems have "\<forall>y\<in>set xs. \<not> k < y" by auto
    then have "filter (\<lambda>y. k < y) xs = []" by (simp add: filter_empty_conv)
    with True show ?thesis by simp
  next
    case False
    with Cons.prems have mem: "k \<in> set xs" by simp
    with Cons.prems have "k \<le> x" by auto
    with False have "k < x" by simp
    moreover from Cons.prems have "sorted_wrt (\<lambda>a b. b \<le> a) xs" by simp
    ultimately show ?thesis using Cons.IH mem False by simp
  qed
qed

lemma sql_rank_desc_count:
  fixes k :: "'k::linorder"
  assumes "k \<in> set ks"
  shows "sql_rank_desc ks k = Suc (length (filter (\<lambda>x. k < x) ks))"
proof -
  have desc: "sorted_wrt (\<lambda>a b. b \<le> a) (rev (sort ks))"
    by (simp add: sorted_wrt_rev)
  have "takeWhile (\<lambda>x. x \<noteq> k) (rev (sort ks)) = filter (\<lambda>x. k < x) (rev (sort ks))"
    using desc assms by (intro takeWhile_descending) simp_all
  also have "length \<dots> = length (filter (\<lambda>x. k < x) ks)"
    by (simp add: rev_filter [symmetric] filter_sort)
  finally show ?thesis by (simp add: sql_rank_desc_def)
qed

lemma length_filter_map: "length (filter P (map f xs)) = length (filter (\<lambda>x. P (f x)) xs)"
  by (induction xs) simp_all

subsection \<open>The loop of \<^verbatim>\<open>main\<close>\<close>

lemma collect_no_data:
  "\<forall>y\<in>set ys. fetch_county_gdp bea y = Return None \<Longrightarrow> collect bea ys = Return []"
  by (induction ys) simp_all

subsection \<open>The decoded body\<close>

lemma rows_of_json_rows: "rows_of_json (map json_of_row rows) = Some rows"
  by (induction rows) (simp_all add: row_of_json_def cell_text_def lookup_def json_of_row_def)

lemma frame_of_body_rows: "frame_of_body (body_with (map json_of_row rows)) = Return (Some rows)"
  by (simp add: frame_of_body_def body_with_def lookup_def DataFrame_def rows_of_json_rows)

subsection \<open>The sample row of the single-year table\<close>

lemma floor_autauga: "\<lfloor>2469 / 2000 :: rat\<rfloor> = 1"
  by (rule floor_unique) simp_all

lemma clean_autauga:
  "clean_row autauga_row =
     \<lparr> c_GeoFips = ''01001'', GDP = Some (2469 / 2), State = Some ''AL'',
       County = ''Autauga, AL'', GDP_Billions = Some (2469 / 2000000),
       StateName = Some ''Alabama'' \<rparr>"
  by (simp add: clean_row_def autauga_row_def string_defs strip_county_suffix_def state_names_def)

lemma autauga_in_range: "\<not> value_out_of_range autauga_row"
  by (simp add: autauga_row_def string_defs)

lemma single_year_autauga:
  "get_county_gdp_by_state (Body (body_with [json_of_row autauga_row])) = Return [autauga_output]"
  using frame_of_body_rows [of "[autauga_row]"]
  by (simp add: get_county_gdp_by_state_def sort_values_def output_of_def clean_autauga
      autauga_in_range
      round3_def round_half_even_def floor_autauga Let_def autauga_output_def)

lemma county_growth_sample:
  "county_growth [autauga_2019, autauga_2020] = [autauga_growth_2019, autauga_growth_2020]"
  by (simp add: county_growth_def left_join_def growth_of_def prev_year_cond_def
      sql_minus_def sql_div_def autauga_2019_def autauga_2020_def autauga_growth_2019_def
      autauga_growth_2020_def)

section \<open>Specified properties\<close>

text \<open>
  C1. For every group of the Aggregator, \<open>total_gdp\<close> is the sum of the values of the
  group that are not null, and \<open>num_counties\<close> is said to count all records of the group,
  those with a null value included. The code computes \<open>num_counties\<close> with \<^verbatim>\<open>'count'\<close>
  on the \<^verbatim>\<open>gdp_billions\<close> column, which counts the values that are not null
  (\<open>summarize_aggregates\<close>). On a group of two records, one of them without a value, the
  stored count is 1.
\<close>

theorem num_counties_skips_null_gdp:
  "state_summaries [autauga_2020, baldwin_2020] =
     [\<lparr> ss_state_code = ''AL'', ss_year = 2020, total_gdp = 3 / 2, num_counties = 1 \<rparr>]
   \<and> length (group_rows [autauga_2020, baldwin_2020] (''AL'', 2020)) = 2"
  by (simp add: agg_defs autauga_2020_def baldwin_2020_def)

text \<open>
  C2, as stated: the replacement is said to be atomic, so that a failure part of the way
  leaves the earlier contents of both tables. When the load of the counties fails
  (statement 7), a database that held the record of 2019 is left with the new state
  summaries and an empty \<^verbatim>\<open>counties\<close> table: neither the earlier data nor the new
  dataset.
\<close>

theorem atomic_replace_counterexample:
  "counties_rows prior_database = [autauga_2019]
   \<and> states_rows prior_database =
       [\<lparr> ss_state_code = ''AL'', ss_year = 2019, total_gdp = 1, num_counties = 1 \<rparr>]
   \<and> counties_rows (create_database_failing 7 [autauga_2020] (Some prior_database)) = []
   \<and> states_rows (create_database_failing 7 [autauga_2020] (Some prior_database)) =
       [\<lparr> ss_state_code = ''AL'', ss_year = 2020, total_gdp = 3 / 2, num_counties = 1 \<rparr>]
   \<and> counties_rows (create_database [autauga_2020] (Some prior_database)) = [autauga_2020]"
  by (simp add: prior_database_rows create_database_rows summaries_autauga_2020
      create_database_failing_def run_def script_def connect_def)

text \<open>
  C2, amended. \<^verbatim>\<open>create_database\<close> is not atomic: its statements take effect one
  after the other, and when statement \<open>k\<close> fails the file keeps what the statements
  before it did. On a database that has both tables: the earlier rows of \<^verbatim>\<open>states\<close> are
  there up to the drop (\<open>k \<le> 2\<close>), the table is empty while it is rebuilt, and it
  holds the new summaries from \<open>k = 5\<close> on; the earlier rows of \<^verbatim>\<open>counties\<close> are there
  for \<open>k \<le> 5\<close>, the table is empty for \<open>k\<close> 6 and 7, and it holds the new records from
  \<open>k = 8\<close> on, as after a run in which no statement fails: a failure while the views and
  indexes are created leaves both tables with the new data.
\<close>

theorem create_database_stepwise:
  assumes "states_schema db \<noteq> None" and "counties_schema db \<noteq> None"
  shows "states_rows (create_database_failing k all_data (Some db)) =
           (if k \<le> 2 then states_rows db else if k \<le> 4 then [] else state_summaries all_data)
       \<and> counties_rows (create_database_failing k all_data (Some db)) =
           (if k \<le> 5 then counties_rows db else if k \<le> 7 then [] else all_data)
       \<and> states_rows (create_database all_data (Some db)) = state_summaries all_data
       \<and> counties_rows (create_database all_data (Some db)) = all_data"
proof -
  have full: "states_rows (create_database all_data (Some db)) = state_summaries all_data
       \<and> counties_rows (create_database all_data (Some db)) = all_data"
    by (rule create_database_rows)
  have part: "states_rows (create_database_failing k all_data (Some db)) =
           (if k \<le> 2 then states_rows db else if k \<le> 4 then [] else state_summaries all_data)
       \<and> counties_rows (create_database_failing k all_data (Some db)) =
           (if k \<le> 5 then counties_rows db else if k \<le> 7 then [] else all_data)"
    using failing_cases [of k]
  proof (elim disjE)
    assume "8 \<le> k"
    then show ?thesis
      using rows_after_loads [of k all_data "connect (Some db)"]
      by (simp add: create_database_failing_def)
  qed (use assms in \<open>auto simp: create_database_failing_def run_def script_def connect_def\<close>)
  from part full show ?thesis by simp
qed

theorem create_database_stepwise_witness:
  "states_rows (create_database_failing 5 [autauga_2020] (Some prior_database)) =
     [\<lparr> ss_state_code = ''AL'', ss_year = 2020, total_gdp = 3 / 2, num_counties = 1 \<rparr>]
   \<and> counties_rows (create_database_failing 5 [autauga_2020] (Some prior_database)) =
     [autauga_2019]"
  using create_database_stepwise [of prior_database 5 "[autauga_2020]"]
  by (simp add: prior_database_rows summaries_autauga_2020)

text \<open>
  C3. A row with an unreadable value or label gets nulls in those fields and the batch is
  kept, as the first equation shows on three rows. The period column is converted without
  \<^verbatim>\<open>errors='coerce'\<close>: one unreadable period raises \<^verbatim>\<open>ValueError\<close> and no row of the
  batch is produced, which is the second equation.
\<close>

theorem bad_period_aborts_batch:
  "process_bea_data (Some [autauga_row, baldwin_na_row, unlabelled_row]) =
     Return (Some
       [\<lparr> fips_code = ''01001'', county_name = Some ''Autauga'', state_code = Some ''AL'',
          gdp_billions = Some (2469 / 2000), year = Some 2020 \<rparr>,
        \<lparr> fips_code = ''01003'', county_name = Some ''Baldwin'', state_code = Some ''AL'',
          gdp_billions = None, year = Some 2020 \<rparr>,
        \<lparr> fips_code = ''01000'', county_name = None, state_code = None,
          gdp_billions = Some (1 / 2), year = Some 2020 \<rparr>])
   \<and> process_bea_data (Some [autauga_row, bad_period_row]) = Raise ValueError"
  by (simp add: process_bea_data_def normalize_row_def autauga_row_def baldwin_na_row_def
      unlabelled_row_def bad_period_row_def string_defs)

text \<open>
  C4. After a run the two tables are said to carry their primary and foreign keys, so
  that \<open>(fips_code, year)\<close> is unique among the stored county rows. \<^verbatim>\<open>to_sql\<close> with
  \<^verbatim>\<open>if_exists='replace'\<close> drops the tables that lines 67 to 87 declared and creates them
  again from the frames, without keys: the same record given twice is stored twice.
\<close>

theorem stored_tables_have_no_keys:
  "counties_schema (create_database [autauga_2020, autauga_2020] None) = Some counties_frame_schema
   \<and> primary_key counties_frame_schema = []
   \<and> foreign_key counties_frame_schema = None
   \<and> states_schema (create_database [autauga_2020, autauga_2020] None) = Some states_frame_schema
   \<and> primary_key states_frame_schema = []
   \<and> counties_rows (create_database [autauga_2020, autauga_2020] None) = [autauga_2020, autauga_2020]"
  by (simp add: create_database_rows create_database_schemas
      counties_frame_schema_def states_frame_schema_def)

text \<open>
  C5, as stated: the single-year table is said to hold, for the sample row, the county
  name \<open>Autauga\<close>, the year 2020 and a value of about 0.0012345. The returned row has
  no year column, its \<open>County\<close> is the whole label, and its value is rounded to 0.001.
\<close>

theorem single_year_roundtrip_counterexample:
  "get_county_gdp_by_state (Body (body_with [json_of_row autauga_row])) = Return [autauga_output]
   \<and> o_County autauga_output \<noteq> ''Autauga''
   \<and> o_GDP_Billions autauga_output \<noteq> Some (2469 / 2000000)"
  by (simp add: single_year_autauga) (simp add: autauga_output_def)

text \<open>
  C5, amended. For the sample row the single-year script computes the state code \<open>AL\<close>,
  the value 1234.5 with the comma removed, and 1234.5 / 1000000 = 0.0012345 as
  \<open>GDP_Billions\<close>; the returned table has one row, with the state name \<open>Alabama\<close>, the
  code \<open>01001\<close> and the value rounded to three decimals, 0.001.
\<close>

theorem single_year_roundtrip:
  "State (clean_row autauga_row) = Some ''AL''
   \<and> GDP (clean_row autauga_row) = Some (2469 / 2)
   \<and> GDP_Billions (clean_row autauga_row) = Some (2469 / 2000000)
   \<and> (\<exists>r. get_county_gdp_by_state (Body (body_with [json_of_row autauga_row])) = Return [r]
          \<and> o_StateName r = Some ''Alabama''
          \<and> o_GeoFips r = ''01001''
          \<and> o_GDP_Billions r = Some (1 / 1000))"
  by (simp add: clean_autauga single_year_autauga autauga_output_def)


text \<open>
  Where the body is not made of objects the function may not return at all: with
  \<^verbatim>\<open>null\<close> under \<^verbatim>\<open>BEAAPI\<close> the second test of line 27 raises \<^verbatim>\<open>TypeError\<close>, which
  line 37 does not catch.
\<close>

lemma null_beaapi_raises:
  "fetch_county_gdp null_beaapi_service 2020 = Raise TypeError"
  by (simp add: null_beaapi_service_def fetch_county_gdp_def json_defs)



text \<open>
  C7. The rows of \<^verbatim>\<open>county_growth\<close> are exactly these: for every stored record that has
  no stored record of the same code for the year before (the earliest year of a county
  among them), its row with a null rate; and for every stored record and every stored
  record of the same code for the year before, its row with the rate current value
  divided by previous value, minus 1 (null when one of the two values is null or the
  previous one is 0). When \<open>(fips_code, year)\<close> identifies a record there is at most one
  record for the year before.
\<close>

theorem county_growth_rate:
  "(g \<in> set (county_growth counties)) =
     (\<exists>c1 \<in> set counties.
        (preceding_records counties c1 = [] \<and> g = view_row c1 None)
      \<or> (\<exists>c2 \<in> set (preceding_records counties c1). g = view_row c1 (rate_of c1 c2)))
   \<and> (distinct (map record_key counties) \<longrightarrow> length (preceding_records counties c) \<le> 1)"
proof -
  have "(g \<in> set (county_growth counties)) =
          (\<exists>c1 m. (c1, m) \<in> set (left_join prev_year_cond counties counties) \<and> g = growth_of (c1, m))"
    by (auto simp: county_growth_def)
  also have "\<dots> =
     (\<exists>c1 \<in> set counties.
        (preceding_records counties c1 = [] \<and> g = view_row c1 None)
      \<or> (\<exists>c2 \<in> set (preceding_records counties c1). g = view_row c1 (rate_of c1 c2)))"
    (is "?L = ?R")
  proof
    assume ?L
    then obtain c1 m where j: "(c1, m) \<in> set (left_join prev_year_cond counties counties)"
      and g: "g = growth_of (c1, m)" by blast
    from j have c1: "c1 \<in> set counties" by (simp add: left_join_set)
    show ?R
    proof (cases m)
      case None
      with j have "\<forall>b\<in>set counties. \<not> prev_year_cond c1 b" by (simp add: left_join_set)
      then have "preceding_records counties c1 = []"
        by (simp add: preceding_records_join filter_empty_conv)
      moreover have "g = view_row c1 None" by (simp add: g None growth_of_view_row)
      ultimately show ?thesis using c1 by blast
    next
      case (Some c2)
      with j have "c2 \<in> set counties" and "prev_year_cond c1 c2"
        by (simp_all add: left_join_set)
      then have "c2 \<in> set (preceding_records counties c1)"
        by (simp add: preceding_records_join)
      moreover have "g = view_row c1 (rate_of c1 c2)" by (simp add: g Some growth_of_view_row)
      ultimately show ?thesis using c1 by blast
    qed
  next
    assume ?R
    then obtain c1 where c1: "c1 \<in> set counties"
      and alt: "(preceding_records counties c1 = [] \<and> g = view_row c1 None)
              \<or> (\<exists>c2 \<in> set (preceding_records counties c1). g = view_row c1 (rate_of c1 c2))"
      by blast
    from alt show ?L
    proof
      assume none: "preceding_records counties c1 = [] \<and> g = view_row c1 None"
      then have "\<forall>b\<in>set counties. \<not> prev_year_cond c1 b"
        by (simp add: preceding_records_join filter_empty_conv)
      with c1 have "(c1, None) \<in> set (left_join prev_year_cond counties counties)"
        by (simp add: left_join_set)
      moreover from none have "g = growth_of (c1, None)" by (simp add: growth_of_view_row)
      ultimately show ?L by blast
    next
      assume "\<exists>c2 \<in> set (preceding_records counties c1). g = view_row c1 (rate_of c1 c2)"
      then obtain c2 where c2: "c2 \<in> set (preceding_records counties c1)"
        and g: "g = view_row c1 (rate_of c1 c2)" by blast
      from c2 have "c2 \<in> set counties" and "prev_year_cond c1 c2"
        by (simp_all add: preceding_records_join)
      with c1 have "(c1, Some c2) \<in> set (left_join prev_year_cond counties counties)"
        by (simp add: left_join_set)
      moreover from g have "g = growth_of (c1, Some c2)" by (simp add: growth_of_view_row)
      ultimately show ?L by blast
    qed
  qed
  finally have rows: "(g \<in> set (county_growth counties)) =
     (\<exists>c1 \<in> set counties.
        (preceding_records counties c1 = [] \<and> g = view_row c1 None)
      \<or> (\<exists>c2 \<in> set (preceding_records counties c1). g = view_row c1 (rate_of c1 c2)))" .
  have "distinct (map record_key counties) \<longrightarrow> length (preceding_records counties c) \<le> 1"
    using preceding_records_unique [of counties c] by blast
  with rows show ?thesis by (rule conjI)
qed

theorem county_growth_rate_witness:
  "autauga_growth_2020 \<in> set (county_growth [autauga_2019, autauga_2020])
   \<and> autauga_growth_2019 \<in> set (county_growth [autauga_2019, autauga_2020])
   \<and> preceding_records [autauga_2019, autauga_2020] autauga_2020 = [autauga_2019]
   \<and> preceding_records [autauga_2019, autauga_2020] autauga_2019 = []
   \<and> autauga_growth_2020 = view_row autauga_2020 (Some (1 / 2))
   \<and> autauga_growth_2019 = view_row autauga_2019 None"
proof -
  have p20: "preceding_records [autauga_2019, autauga_2020] autauga_2020 = [autauga_2019]"
    by (simp add: preceding_records_def autauga_2019_def autauga_2020_def)
  have p19: "preceding_records [autauga_2019, autauga_2020] autauga_2019 = []"
    by (simp add: preceding_records_def autauga_2019_def autauga_2020_def)
  have r20: "rate_of autauga_2020 autauga_2019 = Some (1 / 2)"
    by (simp add: rate_of_def autauga_2019_def autauga_2020_def)
  have v20: "autauga_growth_2020 = view_row autauga_2020 (Some (1 / 2))"
    by (simp add: view_row_def autauga_2020_def autauga_growth_2020_def)
  have v19: "autauga_growth_2019 = view_row autauga_2019 None"
    by (simp add: view_row_def autauga_2019_def autauga_growth_2019_def)
  have "autauga_growth_2020 \<in> set (county_growth [autauga_2019, autauga_2020])"
    using county_growth_rate [of autauga_growth_2020 "[autauga_2019, autauga_2020]"]
    by (simp add: p20 p19 r20 v20 [symmetric])
  moreover have "autauga_growth_2019 \<in> set (county_growth [autauga_2019, autauga_2020])"
    using county_growth_rate [of autauga_growth_2019 "[autauga_2019, autauga_2020]"]
    by (simp add: p20 p19 v19 [symmetric])
  ultimately show ?thesis using p20 p19 v20 v19 by simp
qed

text \<open>
  C8. In \<^verbatim>\<open>county_rankings_by_year\<close> the rank of a county in its state is one plus the
  number of rows of its \<open>(state_code, year)\<close> partition with a strictly greater value,
  the national rank is the same over its year partition, and two rows of a partition
  with equal values have equal ranks. Greater is meant in the order of the
  \<^verbatim>\<open>ORDER BY\<close>, where a null value is below every number.
\<close>

theorem rankings_count_strictly_greater:
  assumes "c \<in> set counties"
  shows "rank_in_state (ranking_of counties c) = Suc (count_above (state_partition counties c) c)
       \<and> rank_national (ranking_of counties c) = Suc (count_above (year_partition counties c) c)
       \<and> (\<forall>d. d \<in> set counties \<and> gdp_billions d = gdp_billions c \<and> year d = year c \<longrightarrow>
             rank_national (ranking_of counties d) = rank_national (ranking_of counties c)
           \<and> (state_code d = state_code c \<longrightarrow>
                rank_in_state (ranking_of counties d) = rank_in_state (ranking_of counties c)))"
proof -
  have in_state: "gdp_billions c \<in> set (map gdp_billions (state_partition counties c))"
    using assms by (simp add: state_partition_def)
  have in_year: "gdp_billions c \<in> set (map gdp_billions (year_partition counties c))"
    using assms by (simp add: year_partition_def)
  have st: "rank_in_state (ranking_of counties c) = Suc (count_above (state_partition counties c) c)"
    using sql_rank_desc_count [OF in_state]
    by (simp add: ranking_of_def count_above_def length_filter_map comp_def)
  have nat: "rank_national (ranking_of counties c) = Suc (count_above (year_partition counties c) c)"
    using sql_rank_desc_count [OF in_year]
    by (simp add: ranking_of_def count_above_def length_filter_map comp_def)
  have ties: "\<forall>d. d \<in> set counties \<and> gdp_billions d = gdp_billions c \<and> year d = year c \<longrightarrow>
             rank_national (ranking_of counties d) = rank_national (ranking_of counties c)
           \<and> (state_code d = state_code c \<longrightarrow>
                rank_in_state (ranking_of counties d) = rank_in_state (ranking_of counties c))"
    by (simp add: ranking_of_def state_partition_def year_partition_def)
  from st nat ties show ?thesis by blast
qed

theorem rankings_count_strictly_greater_witness:
  "rank_in_state (ranking_of [autauga_2020, baldwin_2020, unlabelled_2020] baldwin_2020) = 2
   \<and> rank_national (ranking_of [autauga_2020, baldwin_2020, unlabelled_2020] baldwin_2020) = 3"
  using rankings_count_strictly_greater
    [of baldwin_2020 "[autauga_2020, baldwin_2020, unlabelled_2020]"]
  by (simp add: count_above_def state_partition_def year_partition_def
      autauga_2020_def baldwin_2020_def unlabelled_2020_def)

text \<open>
  C9. When the fetch of every year gives no data, \<^verbatim>\<open>main\<close> takes the early return of
  line 177: \<^verbatim>\<open>create_database\<close> is not called and the database file is as it was
  (absent if it was absent).
\<close>

theorem total_fetch_failure:
  assumes "\<forall>y\<in>set years. fetch_county_gdp bea y = Return None"
  shows "main bea file = Some (NoDataFetched, file)"
  using collect_no_data [OF assms] by (simp add: main_def)

theorem total_fetch_failure_witness:
  "main failing_service None = Some (NoDataFetched, None)"
  using total_fetch_failure [of failing_service None]
  by (simp add: fetch_county_gdp_def failing_service_def)

text \<open>
  C10. A record whose label did not decompose (null \<open>state_code\<close>) is loaded into
  \<^verbatim>\<open>counties\<close>, and the \<^verbatim>\<open>states\<close> table is the one computed without it: it adds to no
  \<open>total_gdp\<close> and no \<open>num_counties\<close>, and no row of \<^verbatim>\<open>states\<close> has its state code.
\<close>

theorem null_state_rows_have_no_summary:
  assumes "state_code c = None"
  shows "c \<in> set (counties_rows (create_database (xs @ c # ys) file))
       \<and> states_rows (create_database (xs @ c # ys) file) = state_summaries (xs @ ys)
       \<and> list_all (\<lambda>s. Some (ss_state_code s) \<noteq> state_code c)
            (states_rows (create_database (xs @ c # ys) file))"
  using assms
  by (simp add: create_database_rows state_summaries_drop_null list_all_iff)

theorem null_state_rows_have_no_summary_witness:
  "counties_rows (create_database [autauga_2020, unlabelled_2020] None)
     = [autauga_2020, unlabelled_2020]
   \<and> states_rows (create_database [autauga_2020, unlabelled_2020] None)
     = [\<lparr> ss_state_code = ''AL'', ss_year = 2020, total_gdp = 3 / 2, num_counties = 1 \<rparr>]"
proof -
  have null: "state_code unlabelled_2020 = None" by (simp add: unlabelled_2020_def)
  have "state_summaries [autauga_2020] =
      [\<lparr> ss_state_code = ''AL'', ss_year = 2020, total_gdp = 3 / 2, num_counties = 1 \<rparr>]"
    by (simp add: agg_defs autauga_2020_def)
  with null_state_rows_have_no_summary [OF null, of "[autauga_2020]" "[]" None]
  show ?thesis by (simp add: create_database_rows)
qed

end
